theory Spec2Isabelle
  imports Main "HOL-Library.AList"
begin

section \<open>Python values used by \<^verbatim>\<open>l10n.py\<close>\<close>

text \<open>
  The module is Python 2 code for buildbot. Byte strings are modelled as \<^typ>\<open>string\<close>.
  An exception is a value of \<open>py_error\<close>; a function that can raise returns
  \<open>py_error + 'a\<close> with \<open>Inl\<close> for the exception.
\<close>

datatype fetch_failure = TransportError | Timeout

datatype py_error =
    IndexError
  | AssertionError
  | KeyError string
  | ValueError
  | FetchError fetch_failure
  | Unmodelled

text \<open>
  A dictionary from locale ids to lists of platform tokens is an association list with
  pairwise different keys, in insertion order. \<^verbatim>\<open>d[k] = v\<close> is \<^const>\<open>AList.update\<close>
  (replace in place, or append when the key is new), \<^verbatim>\<open>d[k]\<close> and \<^verbatim>\<open>k in d\<close> are
  \<^const>\<open>map_of\<close>. Python 2 iterates a dict in an arbitrary order; no statement below
  depends on the order beyond it being some enumeration of the keys.
\<close>

type_synonym locales_dict = "(string \<times> string list) list"

subsection \<open>String methods\<close>

text \<open>The characters that \<^verbatim>\<open>str.strip()\<close> and \<^verbatim>\<open>str.split()\<close> treat as whitespace:
  space, tab, line feed, vertical tab, form feed and carriage return.\<close>

definition isspace :: "char \<Rightarrow> bool" where
  "isspace c \<longleftrightarrow>
     c = CHR '' '' \<or> c = CHR 0x09 \<or> c = CHR 0x0A \<or> c = CHR 0x0B \<or> c = CHR 0x0C \<or> c = CHR 0x0D"

text \<open>\<^verbatim>\<open>s.strip()\<close>: drop the whitespace at both ends.\<close>

definition strip :: "string \<Rightarrow> string" where
  "strip s = rev (dropWhile isspace (rev (dropWhile isspace s)))"

text \<open>\<^verbatim>\<open>s.split(sep)\<close> for a one-character separator: the pieces between the
  separators, empty pieces included, so the result is never the empty list.\<close>

fun split_sep :: "char \<Rightarrow> string \<Rightarrow> string list" where
  "split_sep sep [] = [[]]"
| "split_sep sep (c # cs) =
     (if c = sep then [] # split_sep sep cs
      else (case split_sep sep cs of
              [] \<Rightarrow> [[c]]
            | l # ls \<Rightarrow> (c # l) # ls))"

text \<open>\<^verbatim>\<open>s.split()\<close>: the maximal runs of non-whitespace characters; \<open>cur\<close> is the run
  being read.\<close>

fun split_ws_from :: "string \<Rightarrow> string \<Rightarrow> string list" where
  "split_ws_from cur [] = (if cur = [] then [] else [cur])"
| "split_ws_from cur (c # cs) =
     (if isspace c
      then (if cur = [] then split_ws_from [] cs else cur # split_ws_from [] cs)
      else split_ws_from (cur @ [c]) cs)"

definition split_ws :: "string \<Rightarrow> string list" where
  "split_ws s = split_ws_from [] s"

section \<open>\<^verbatim>\<open>ParseLocalesFile\<close>\<close>

text \<open>
  \<^verbatim>\<open>
  for plat in buildPlatforms:
      if plat not in locales[locale]:
          locales[locale].append(plat)
  \<close>
\<close>

fun append_new :: "string list \<Rightarrow> string list \<Rightarrow> string list" where
  "append_new known [] = known"
| "append_new known (plat # buildPlatforms) =
     (if plat \<notin> set known then append_new (known @ [plat]) buildPlatforms
      else append_new known buildPlatforms)"

text \<open>
  The body of the loop over the lines. \<^verbatim>\<open>splitLine[0]\<close> raises \<^verbatim>\<open>IndexError\<close> when the
  line has no token; the exception leaves the function.
\<close>

fun parse_lines :: "locales_dict \<Rightarrow> string list \<Rightarrow> py_error + locales_dict" where
  "parse_lines locales [] = Inr locales"
| "parse_lines locales (line # rest) =
     (case split_ws line of
        [] \<Rightarrow> Inl IndexError
      | locale # buildPlatforms \<Rightarrow>
          (case map_of locales locale of
             Some known \<Rightarrow>
               parse_lines (AList.update locale (append_new known buildPlatforms) locales) rest
           | None \<Rightarrow>
               parse_lines (AList.update locale buildPlatforms locales) rest))"

definition ParseLocalesFile :: "string \<Rightarrow> py_error + locales_dict" where
  "ParseLocalesFile data = parse_lines [] (split_sep (CHR 0x0A) (strip data))"

section \<open>\<^verbatim>\<open>L10nMixin\<close>\<close>

subsection \<open>The object and its constructor\<close>

record L10nMixin =
  branch :: "string option"
  baseTag :: string
  localesURL :: string
  locales :: "locales_dict option"
  platform :: string

definition startswith :: "string \<Rightarrow> string \<Rightarrow> bool" where
  "startswith s p \<longleftrightarrow> take (length p) s = p"

definition supported_platforms :: "string list" where
  "supported_platforms =
     [''linux'', ''linux64'', ''win32'', ''win64'', ''macosx'', ''macosx64'', ''osx'', ''osx64'']"

text \<open>The two \<^verbatim>\<open>if\<close> statements that rewrite \<^verbatim>\<open>self.platform\<close>, one after the other.\<close>

definition normalize_platform :: "string \<Rightarrow> string" where
  "normalize_platform p =
     (let p1 = (if startswith p ''macosx'' then ''osx'' else p)
      in if startswith p1 ''linux'' then ''linux'' else p1)"

text \<open>
  \<^verbatim>\<open>__init__(self, platform, repo, branch, baseTag, localesFile, locales, localesURL)\<close>,
  every argument given explicitly; \<^verbatim>\<open>None\<close> and the empty string or dict are false
  in a condition. The default URL is
  \<^verbatim>\<open>"%s%s/raw-file/%%(revision)s/%s" % (repo, branch, localesFile)\<close>. The assertion on
  the branch runs before the one on the platform; both raise \<^verbatim>\<open>AssertionError\<close>.
\<close>

definition init ::
  "string \<Rightarrow> string \<Rightarrow> string option \<Rightarrow> string \<Rightarrow> string \<Rightarrow> locales_dict option \<Rightarrow>
     string option \<Rightarrow> py_error + L10nMixin" where
  "init platform' repo branch' baseTag' localesFile locales' localesURL' =
     (case (case localesURL' of
              Some (c # u) \<Rightarrow> Inr (c # u)
            | _ \<Rightarrow>
                (case branch' of
                   None \<Rightarrow> Inl AssertionError
                 | Some b \<Rightarrow> Inr (repo @ b @ ''/raw-file/%(revision)s/'' @ localesFile))) of
        Inl err \<Rightarrow> Inl err
      | Inr url \<Rightarrow>
          if platform' \<in> set supported_platforms
          then Inr \<lparr>branch = branch', baseTag = baseTag', localesURL = url,
                    locales = locales', platform = normalize_platform platform'\<rparr>
          else Inl AssertionError)"

subsection \<open>The host scheduler, its database and the network\<close>

text \<open>
  Build properties (\<^verbatim>\<open>buildbot.process.properties.Properties\<close>): a dictionary from a
  property name to its value and the source that set it. \<^verbatim>\<open>updateFromProperties\<close>
  copies every entry of the other set over this one, \<^verbatim>\<open>update\<close> stores the entries of
  a dictionary under one source, \<^verbatim>\<open>setProperty\<close> stores one entry.
\<close>

type_synonym props = "string \<rightharpoonup> (string \<times> string)"

definition updateFromProperties :: "props \<Rightarrow> props \<Rightarrow> props" where
  "updateFromProperties p other = p ++ other"

fun update_props :: "props \<Rightarrow> (string \<times> string) list \<Rightarrow> string \<Rightarrow> props" where
  "update_props p [] source = p"
| "update_props p ((k, v) # kvs) source = update_props (p(k \<mapsto> (v, source))) kvs source"

definition setProperty :: "props \<Rightarrow> string \<Rightarrow> string \<Rightarrow> string \<Rightarrow> props" where
  "setProperty p name val source = p(name \<mapsto> (val, source))"

record buildset =
  bs_ssid :: nat
  bs_reason :: "string option"
  bs_props :: props

text \<open>
  What the module changes outside itself: the source stamps stored in the database (the
  branch of each), the build sets submitted with \<^verbatim>\<open>create_buildset\<close>, and the URLs
  requested with \<^verbatim>\<open>getPage\<close>. Calls of \<^verbatim>\<open>log.msg\<close> are left out.
\<close>

record host =
  sourcestamps :: "string option list"
  buildsets :: "buildset list"
  requested :: "string list"

text \<open>\<^verbatim>\<open>db.get_sourcestampid(ss, t)\<close> for a new \<^verbatim>\<open>SourceStamp(branch=...)\<close>: the stamp is
  stored and its row number returned.\<close>

definition get_sourcestampid :: "string option \<Rightarrow> host \<Rightarrow> host \<times> nat" where
  "get_sourcestampid b h = (h\<lparr>sourcestamps := sourcestamps h @ [b]\<rparr>, length (sourcestamps h))"

definition create_buildset :: "nat \<Rightarrow> string option \<Rightarrow> props \<Rightarrow> host \<Rightarrow> host" where
  "create_buildset ssid reason p h =
     h\<lparr>buildsets := buildsets h @ [\<lparr>bs_ssid = ssid, bs_reason = reason, bs_props = p\<rparr>]\<rparr>"

text \<open>\<^verbatim>\<open>getPage(url, timeout=5 * 60)\<close>: the network is a function \<open>net\<close> from the URL to
  the page or to the failure of the transfer. The request is recorded.\<close>

definition getPage ::
  "(string \<Rightarrow> fetch_failure + string) \<Rightarrow> string \<Rightarrow> host \<Rightarrow> host \<times> (py_error + string)" where
  "getPage net url h =
     (h\<lparr>requested := requested h @ [url]\<rparr>,
      case net url of Inl f \<Rightarrow> Inl (FetchError f) | Inr data \<Rightarrow> Inr data)"

subsection \<open>\<^verbatim>\<open>self.localesURL % {'revision': ...}\<close>\<close>

text \<open>
  The \<^verbatim>\<open>%\<close> operator with a one-entry dictionary on the right, for the two
  conversions the module's URLs use: \<^verbatim>\<open>%%\<close> and \<^verbatim>\<open>%(key)s\<close>. A key is read up to its
  closing parenthesis, nested parentheses counted; an unknown key raises \<^verbatim>\<open>KeyError\<close>, a
  template that ends inside a conversion raises \<^verbatim>\<open>ValueError\<close>. Any other conversion
  (flags, widths, other types, no key) gives \<^const>\<open>Unmodelled\<close>.
\<close>

datatype fmt_state = Lit | Pct | Key nat string | Conv

fun format_revision :: "fmt_state \<Rightarrow> string \<Rightarrow> string \<Rightarrow> py_error + string" where
  "format_revision st r [] = (case st of Lit \<Rightarrow> Inr [] | _ \<Rightarrow> Inl ValueError)"
| "format_revision st r (c # cs) =
     (case st of
        Lit \<Rightarrow>
          if c = CHR ''%'' then format_revision Pct r cs
          else map_sum id ((#) c) (format_revision Lit r cs)
      | Pct \<Rightarrow>
          if c = CHR ''%'' then map_sum id ((#) c) (format_revision Lit r cs)
          else if c = CHR ''('' then format_revision (Key 0 []) r cs
          else Inl Unmodelled
      | Key n k \<Rightarrow>
          if c = CHR '')'' then
            (case n of
               0 \<Rightarrow> if k = ''revision'' then format_revision Conv r cs else Inl (KeyError k)
             | Suc m \<Rightarrow> format_revision (Key m (k @ [c])) r cs)
          else if c = CHR ''('' then format_revision (Key (Suc n) (k @ [c])) r cs
          else format_revision (Key n (k @ [c])) r cs
      | Conv \<Rightarrow>
          if c = CHR ''s'' then map_sum id ((@) r) (format_revision Lit r cs)
          else Inl Unmodelled)"

text \<open>\<^verbatim>\<open>revision or self.baseTag\<close>\<close>

definition revision_or :: "string option \<Rightarrow> string \<Rightarrow> string" where
  "revision_or revision tag = (case revision of Some (c # r) \<Rightarrow> c # r | _ \<Rightarrow> tag)"

subsection \<open>\<^verbatim>\<open>getLocales\<close>\<close>

text \<open>
  The method returns the configured dictionary, or a Deferred, or raises while it builds
  the URL. A Deferred is modelled by the result it fires with: the parsed page, or the
  failure of the fetch or of the parser.
\<close>

datatype getLocales_result = Locales locales_dict | Deferred "py_error + locales_dict"

definition getLocales ::
  "(string \<Rightarrow> fetch_failure + string) \<Rightarrow> L10nMixin \<Rightarrow> string option \<Rightarrow> host \<Rightarrow>
     host \<times> (py_error + getLocales_result)" where
  "getLocales net self revision h =
     (case locales self of
        Some (e # d) \<Rightarrow> (h, Inr (Locales (e # d)))
      | _ \<Rightarrow>
          (case format_revision Lit (revision_or revision (baseTag self)) (localesURL self) of
             Inl err \<Rightarrow> (h, Inl err)
           | Inr localePage \<Rightarrow>
               (case getPage net localePage h of
                  (h', page) \<Rightarrow>
                    (h', Inr (Deferred (case page of
                                          Inl err \<Rightarrow> Inl err
                                        | Inr data \<Rightarrow> ParseLocalesFile data))))))"

subsection \<open>\<^verbatim>\<open>_cbLoadedLocales\<close> and \<^verbatim>\<open>createL10nBuilds\<close>\<close>

text \<open>
  The loop \<^verbatim>\<open>for locale in locales\<close> with \<^verbatim>\<open>locales[locale]\<close> read in its body runs over
  the entries of the dictionary. \<open>properties\<close> is \<^verbatim>\<open>self.properties\<close>, the property set
  the host scheduler keeps; \<open>set_props\<close> is \<^verbatim>\<open>None\<close> or a property set (merging an
  empty one changes nothing, whatever its truth value).
\<close>

definition locale_props :: "L10nMixin \<Rightarrow> props \<Rightarrow> props option \<Rightarrow> string \<Rightarrow> props" where
  "locale_props self properties set_props locale =
     (let p0 = updateFromProperties Map.empty properties;
          p1 = (case set_props of None \<Rightarrow> p0 | Some sp \<Rightarrow> updateFromProperties p0 sp);
          p2 = update_props p1 [(''locale'', locale)] ''Scheduler'';
          p3 = setProperty p2 ''en_revision'' (baseTag self) ''L10nMixin''
      in setProperty p3 ''l10n_revision'' (baseTag self) ''L10nMixin'')"

fun cbLoadedLocales ::
  "L10nMixin \<Rightarrow> props \<Rightarrow> locales_dict \<Rightarrow> string option \<Rightarrow> props option \<Rightarrow> host \<Rightarrow> host" where
  "cbLoadedLocales self properties [] reason set_props h = h"
| "cbLoadedLocales self properties ((locale, plats) # rest) reason set_props h =
     (if locale = ''en-US'' then cbLoadedLocales self properties rest reason set_props h
      else if length plats > 0 \<and> platform self \<notin> set plats
        then cbLoadedLocales self properties rest reason set_props h
      else
        (case get_sourcestampid (branch self) h of
           (h1, ssid) \<Rightarrow>
             cbLoadedLocales self properties rest reason set_props
               (create_buildset ssid reason
                  (locale_props self properties set_props locale) h1)))"

text \<open>\<^verbatim>\<open>defer.maybeDeferred(self.getLocales, revision)\<close>: an exception becomes a failed
  Deferred, a plain value a fired one, a Deferred is passed on.\<close>

definition maybeDeferred :: "py_error + getLocales_result \<Rightarrow> py_error + locales_dict" where
  "maybeDeferred r =
     (case r of Inl err \<Rightarrow> Inl err | Inr (Locales d) \<Rightarrow> Inr d | Inr (Deferred x) \<Rightarrow> x)"

text \<open>The callback runs only when the Deferred fired with a dictionary; a failure is
  what the returned Deferred carries.\<close>

definition createL10nBuilds ::
  "(string \<Rightarrow> fetch_failure + string) \<Rightarrow> L10nMixin \<Rightarrow> props \<Rightarrow> string option \<Rightarrow>
     string option \<Rightarrow> props option \<Rightarrow> host \<Rightarrow> host \<times> (py_error + unit)" where
  "createL10nBuilds net self properties revision reason set_props h =
     (case getLocales net self revision h of
        (h1, r) \<Rightarrow>
          (case maybeDeferred r of
             Inl err \<Rightarrow> (h1, Inl err)
           | Inr d \<Rightarrow> (cbLoadedLocales self properties d reason set_props h1, Inr ())))"

section \<open>The filter of the specification, and values for examples\<close>

text \<open>
  The locales the specification says the fan-out submits, in its words: skip the reserved
  base locale \<^verbatim>\<open>en-US\<close>; skip a locale whose restriction set is non-empty and does not
  contain the controller's platform; submit every other locale. It is compared below
  with what \<^const>\<open>cbLoadedLocales\<close> does.
\<close>

definition spec_submitted :: "string \<Rightarrow> locales_dict \<Rightarrow> string list" where
  "spec_submitted plat d =
     map fst (filter (\<lambda>(locale, plats). locale \<noteq> ''en-US'' \<and> (plats = [] \<or> plat \<in> set plats)) d)"

text \<open>The build sets a call has added to those of the host \<open>h\<close> it started from.\<close>

definition submitted_since :: "host \<Rightarrow> host \<Rightarrow> buildset list" where
  "submitted_since h h' = drop (length (buildsets h)) (buildsets h')"

text \<open>The platform tokens stored for a locale id; none when the id is not a key.\<close>

definition plats_of :: "locales_dict \<Rightarrow> string \<Rightarrow> string set" where
  "plats_of d k = (case map_of d k of None \<Rightarrow> {} | Some ps \<Rightarrow> set ps)"

text \<open>The lines the loop of \<^const>\<open>ParseLocalesFile\<close> runs over.\<close>

abbreviation lines_of :: "string \<Rightarrow> string list" where
  "lines_of data \<equiv> split_sep (CHR 0x0A) (strip data)"

text \<open>A host with nothing stored, a network on which every transfer times out, and a
  network that serves one locales file at every URL.\<close>

definition host0 :: host where
  "host0 = \<lparr>sourcestamps = [], buildsets = [], requested = []\<rparr>"

definition net_down :: "string \<Rightarrow> fetch_failure + string" where
  "net_down url = Inl Timeout"

definition net_up :: "string \<Rightarrow> fetch_failure + string" where
  "net_up url = Inr ''en-US\<newline>fr\<newline>ja linux\<newline>''"

section \<open>Facts about the parser\<close>

lemma split_ws_from_tokens: "[] \<notin> set (split_ws_from cur s)"
  by (induction s arbitrary: cur) auto

lemma set_append_new: "set (append_new known bp) = set known \<union> set bp"
  by (induction bp arbitrary: known) auto

lemma plats_of_None: "map_of d k = None \<Longrightarrow> plats_of d k = {}"
  by (simp add: plats_of_def)

lemma plats_of_Some: "map_of d k = Some ps \<Longrightarrow> plats_of d k = set ps"
  by (simp add: plats_of_def)

lemma plats_of_update:
  "plats_of (AList.update t v acc) k = (if k = t then set v else plats_of acc k)"
  by (simp add: plats_of_def update_conv')

text \<open>One round of the loop that does not raise: the line has a first token, and the
  entry of that token is stored or extended.\<close>

lemma parse_lines_Cons:
  "parse_lines acc (l # ls) = Inr d \<Longrightarrow>
   \<exists>t ts. split_ws l = t # ts \<and>
     parse_lines
       (AList.update t (case map_of acc t of None \<Rightarrow> ts | Some known \<Rightarrow> append_new known ts) acc)
       ls = Inr d"
  by (auto split: list.splits option.splits)

lemma parse_lines_distinct:
  "parse_lines acc ls = Inr d \<Longrightarrow> distinct (map fst acc) \<Longrightarrow> distinct (map fst d)"
  by (induction ls arbitrary: acc)
     (auto split: list.splits option.splits simp: distinct_update)

lemma parse_lines_plats:
  "parse_lines acc ls = Inr d \<Longrightarrow>
     plats_of d k = plats_of acc k \<union> \<Union> {set ts | ts. k # ts \<in> set (map split_ws ls)}"
proof (induction ls arbitrary: acc)
  case Nil
  then show ?case by simp
next
  case (Cons l ls)
  from parse_lines_Cons [OF Cons.prems] obtain t ts where
    l: "split_ws l = t # ts" and
    r: "parse_lines
          (AList.update t (case map_of acc t of None \<Rightarrow> ts | Some known \<Rightarrow> append_new known ts) acc)
          ls = Inr d"
    by blast
  have step:
    "plats_of
       (AList.update t (case map_of acc t of None \<Rightarrow> ts | Some known \<Rightarrow> append_new known ts) acc) k =
     plats_of acc k \<union> (if k = t then set ts else {})"
    by (cases "map_of acc t")
       (simp_all add: plats_of_update plats_of_None plats_of_Some set_append_new)
  have un: "\<Union> {set ts' | ts'. k # ts' \<in> set (map split_ws (l # ls))} =
      (if k = t then set ts else {}) \<union> \<Union> {set ts' | ts'. k # ts' \<in> set (map split_ws ls)}"
    using l by auto
  show ?case
    unfolding Cons.IH [OF r] step un by blast
qed

lemma parse_lines_keys:
  "parse_lines acc ls = Inr d \<Longrightarrow>
     fst ` set d = fst ` set acc \<union> {k. \<exists>ts. k # ts \<in> set (map split_ws ls)}"
proof (induction ls arbitrary: acc)
  case Nil
  then show ?case by simp
next
  case (Cons l ls)
  from parse_lines_Cons [OF Cons.prems] obtain t ts where
    l: "split_ws l = t # ts" and
    r: "parse_lines
          (AList.update t (case map_of acc t of None \<Rightarrow> ts | Some known \<Rightarrow> append_new known ts) acc)
          ls = Inr d"
    by blast
  have un: "{k. \<exists>ts'. k # ts' \<in> set (map split_ws (l # ls))} =
      {t} \<union> {k. \<exists>ts'. k # ts' \<in> set (map split_ws ls)}"
    using l by auto
  show ?case
    unfolding Cons.IH [OF r] un dom_update by blast
qed

text \<open>Lines that do not start with \<open>t\<close> leave the entry of \<open>t\<close> as it was.\<close>

lemma parse_lines_untouched:
  "parse_lines acc ls = Inr d \<Longrightarrow> \<forall>ts. t # ts \<notin> set (map split_ws ls) \<Longrightarrow>
     map_of d t = map_of acc t"
proof (induction ls arbitrary: acc)
  case Nil
  then show ?case by simp
next
  case (Cons l ls)
  from parse_lines_Cons [OF Cons.prems(1)] obtain t' ts' where
    l: "split_ws l = t' # ts'" and
    r: "parse_lines
          (AList.update t' (case map_of acc t' of None \<Rightarrow> ts' | Some known \<Rightarrow> append_new known ts') acc)
          ls = Inr d"
    by blast
  from Cons.prems(2) l have ne: "t' \<noteq> t" and rest: "\<forall>ts. t # ts \<notin> set (map split_ws ls)"
    by auto
  from Cons.IH [OF r rest] ne show ?case
    by (simp add: update_conv')
qed

lemma parse_lines_append:
  "parse_lines acc (xs @ ys) =
     (case parse_lines acc xs of Inl err \<Rightarrow> Inl err | Inr m \<Rightarrow> parse_lines m ys)"
  by (induction xs arbitrary: acc) (auto split: list.splits option.splits)

lemma parse_lines_single_occurrence:
  assumes p: "parse_lines [] (xs @ l # ys) = Inr d"
    and l: "split_ws l = t # ts"
    and xs: "\<forall>ts'. t # ts' \<notin> set (map split_ws xs)"
    and ys: "\<forall>ts'. t # ts' \<notin> set (map split_ws ys)"
  shows "map_of d t = Some ts"
proof -
  from p obtain m where m: "parse_lines [] xs = Inr m" and r: "parse_lines m (l # ys) = Inr d"
    by (auto simp: parse_lines_append split: sum.splits)
  from parse_lines_untouched [OF m xs] have none: "map_of m t = None"
    by simp
  from r l none have "parse_lines (AList.update t ts m) ys = Inr d"
    by simp
  from parse_lines_untouched [OF this ys] show ?thesis
    by (simp add: update_conv')
qed

text \<open>The parser returns a mapping exactly when every line of the stripped text has a
  token, and no key of a returned mapping is the empty string.\<close>

lemma parse_lines_total:
  "(\<exists>d. parse_lines acc ls = Inr d) \<longleftrightarrow> (\<forall>l \<in> set ls. split_ws l \<noteq> [])"
  by (induction ls arbitrary: acc) (auto split: list.splits option.splits)

lemma ParseLocalesFile_returns_iff:
  "(\<exists>d. ParseLocalesFile data = Inr d) \<longleftrightarrow> (\<forall>l \<in> set (lines_of data). split_ws l \<noteq> [])"
  by (simp add: ParseLocalesFile_def parse_lines_total)

lemma ParseLocalesFile_keys_nonempty:
  assumes "ParseLocalesFile data = Inr d"
  shows "[] \<notin> fst ` set d"
proof
  assume "[] \<in> fst ` set d"
  with parse_lines_keys [of "[]" "lines_of data" d] assms
  obtain ts l where "[] # ts = split_ws l"
    by (auto simp: ParseLocalesFile_def)
  then have "[] \<in> set (split_ws_from [] l)"
    by (metis list.set_intros(1) split_ws_def)
  with split_ws_from_tokens [of "[]" l] show False
    by simp
qed

section \<open>The parser on lines without a token\<close>

text \<open>
  C1. The specification asks that a line holding only whitespace is skipped and that the
  parser returns a mapping for such input. The code reads \<^verbatim>\<open>splitLine[0]\<close> of every line
  without a guard: on the three-line text \<^verbatim>\<open>fr\<close>, empty line, \<^verbatim>\<open>de\<close>, and on the same
  text with a line of one space in the middle, it raises \<^verbatim>\<open>IndexError\<close> and returns no
  mapping.
\<close>

theorem blank_line_raises_IndexError:
  "ParseLocalesFile ''fr\<newline>\<newline>de'' = Inl IndexError \<and>
   ParseLocalesFile ''fr\<newline> \<newline>de'' = Inl IndexError"
  by (simp add: ParseLocalesFile_def strip_def isspace_def split_ws_def)

text \<open>
  C2. The specification says that input which is empty after stripping gives the empty
  mapping. The empty string split at line feeds is the list of one empty line, so the loop
  body runs once and \<^verbatim>\<open>splitLine[0]\<close> raises \<^verbatim>\<open>IndexError\<close>: on the empty text and on
  a text of whitespace only, the code returns no mapping.
\<close>

theorem empty_input_raises_IndexError:
  "ParseLocalesFile '''' = Inl IndexError \<and>
   ParseLocalesFile '' \<newline>  \<newline>'' = Inl IndexError"
  by (simp add: ParseLocalesFile_def strip_def isspace_def split_ws_def)

section \<open>The mapping the parser returns\<close>

text \<open>
  C7. Whenever the parser returns a mapping, its keys are pairwise different, they are
  the first tokens of the lines, and the platform tokens stored for a locale id are the
  union of the remaining tokens of all the lines that start with that id.
\<close>

theorem parse_keys_unique_restrictions_union:
  assumes "ParseLocalesFile data = Inr d"
  shows "distinct (map fst d) \<and>
         fst ` set d = {k. \<exists>ts. k # ts \<in> set (map split_ws (lines_of data))} \<and>
         (\<forall>k. plats_of d k = \<Union> {set ts | ts. k # ts \<in> set (map split_ws (lines_of data))})"
proof -
  from assms have p: "parse_lines [] (lines_of data) = Inr d"
    by (simp add: ParseLocalesFile_def)
  have "distinct (map fst d)"
    using parse_lines_distinct [OF p] by simp
  moreover have "fst ` set d = {k. \<exists>ts. k # ts \<in> set (map split_ws (lines_of data))}"
    using parse_lines_keys [OF p] by simp
  moreover have "plats_of d k = \<Union> {set ts | ts. k # ts \<in> set (map split_ws (lines_of data))}" for k
    using parse_lines_plats [OF p, of k] by (simp add: plats_of_def)
  ultimately show ?thesis by blast
qed

text \<open>The example of the specification: two lines for \<^verbatim>\<open>fr\<close> give one entry with both
  platforms.\<close>

theorem parse_keys_unique_restrictions_union_witness:
  "ParseLocalesFile ''fr linux\<newline>fr osx'' = Inr [(''fr'', [''linux'', ''osx''])] \<and>
   distinct (map fst [(''fr'', [''linux'', ''osx''])]) \<and>
   plats_of [(''fr'', [''linux'', ''osx''])] ''fr'' =
     \<Union> {set ts | ts. ''fr'' # ts \<in> set (map split_ws (lines_of ''fr linux\<newline>fr osx''))}"
proof -
  have h: "ParseLocalesFile ''fr linux\<newline>fr osx'' = Inr [(''fr'', [''linux'', ''osx''])]"
    by (simp add: ParseLocalesFile_def strip_def isspace_def split_ws_def)
  from parse_keys_unique_restrictions_union [OF h] h show ?thesis
    by blast
qed

text \<open>
  C8, as the specification states it: every line gives an entry whose restriction set
  holds exactly the line's remaining tokens. It fails where a locale id is on two lines:
  the first line of the text below has the tokens \<^verbatim>\<open>fr\<close> and \<^verbatim>\<open>linux\<close>, and the entry of
  \<^verbatim>\<open>fr\<close> holds \<^verbatim>\<open>linux\<close> and \<^verbatim>\<open>osx\<close>.
\<close>

theorem line_entry_not_exactly_its_tokens:
  "ParseLocalesFile ''fr linux\<newline>fr osx'' = Inr [(''fr'', [''linux'', ''osx''])] \<and>
   lines_of ''fr linux\<newline>fr osx'' = [''fr linux'', ''fr osx''] \<and>
   split_ws ''fr linux'' = [''fr'', ''linux''] \<and>
   plats_of [(''fr'', [''linux'', ''osx''])] ''fr'' \<noteq> set [''linux'']"
  by (simp add: ParseLocalesFile_def strip_def isspace_def split_ws_def plats_of_def)

text \<open>
  C8, amended. Whenever the parser returns a mapping, a line with first token \<open>t\<close> and
  remaining tokens \<open>ts\<close> has an entry under the key \<open>t\<close>, the tokens of that entry include
  \<open>ts\<close>, and they are the list \<open>ts\<close> itself, unchanged, when no other line starts with
  \<open>t\<close>.
\<close>

theorem line_entry:
  assumes "ParseLocalesFile data = Inr d"
    and "lines_of data = xs @ line # ys"
    and "split_ws line = t # ts"
  shows "\<exists>ps. map_of d t = Some ps \<and> set ts \<subseteq> set ps \<and>
           ((\<forall>l \<in> set (xs @ ys). \<forall>ts'. split_ws l \<noteq> t # ts') \<longrightarrow> ps = ts)"
proof -
  from assms(1,2) have p: "parse_lines [] (xs @ line # ys) = Inr d"
    by (simp add: ParseLocalesFile_def)
  from assms(3) have mem: "t # ts \<in> set (map split_ws (xs @ line # ys))"
    by (simp add: image_iff)
  from parse_lines_keys [OF p] mem have "t \<in> fst ` set d"
    by auto
  then obtain ps where ps: "map_of d t = Some ps"
    by (cases "map_of d t") (auto simp: map_of_eq_None_iff)
  from parse_lines_plats [OF p, of t] mem have "set ts \<subseteq> plats_of d t"
    by blast
  with ps have sub: "set ts \<subseteq> set ps"
    by (simp add: plats_of_Some)
  have "ps = ts" if "\<forall>l \<in> set (xs @ ys). \<forall>ts'. split_ws l \<noteq> t # ts'"
  proof -
    from that have "\<forall>ts'. t # ts' \<notin> set (map split_ws xs)"
      and "\<forall>ts'. t # ts' \<notin> set (map split_ws ys)"
      by (auto dest: sym)
    from parse_lines_single_occurrence [OF p assms(3) this] ps show ?thesis
      by simp
  qed
  with ps sub show ?thesis by blast
qed

text \<open>The example of the specification, at its second line.\<close>

theorem line_entry_witness:
  "ParseLocalesFile ''fr\<newline>ja linux win32\<newline>de'' =
     Inr [(''fr'', []), (''ja'', [''linux'', ''win32'']), (''de'', [])] \<and>
   (\<exists>ps. map_of [(''fr'', []), (''ja'', [''linux'', ''win32'']), (''de'', [])] ''ja'' = Some ps \<and>
         set [''linux'', ''win32''] \<subseteq> set ps \<and> ps = [''linux'', ''win32''])"
proof -
  have h: "ParseLocalesFile ''fr\<newline>ja linux win32\<newline>de'' =
      Inr [(''fr'', []), (''ja'', [''linux'', ''win32'']), (''de'', [])]"
    by (simp add: ParseLocalesFile_def strip_def isspace_def split_ws_def)
  have l: "lines_of ''fr\<newline>ja linux win32\<newline>de'' = [''fr''] @ ''ja linux win32'' # [''de'']"
    by (simp add: strip_def isspace_def)
  have t: "split_ws ''ja linux win32'' = ''ja'' # [''linux'', ''win32'']"
    by (simp add: split_ws_def isspace_def)
  have u: "\<forall>l \<in> set ([''fr''] @ [''de'']). \<forall>ts'. split_ws l \<noteq> ''ja'' # ts'"
    by (simp add: split_ws_def isspace_def)
  from line_entry [OF h l t] u h show ?thesis
    by blast
qed

section \<open>Construction of the controller\<close>

lemma normalize_platform_prefix:
  "normalize_platform p =
     (if startswith p ''macosx'' then ''osx'' else if startswith p ''linux'' then ''linux'' else p)"
  by (simp add: normalize_platform_def startswith_def)

text \<open>
  C9. A platform outside the eight supported names makes the constructor fail with
  \<^verbatim>\<open>AssertionError\<close>. When the source of the locales URL is sufficient (a URL, or a
  branch), the constructor returns an object exactly when the platform is one of the
  eight. The platform of a constructed object is \<^verbatim>\<open>osx\<close> for a name that starts with
  \<^verbatim>\<open>macosx\<close>, \<^verbatim>\<open>linux\<close> for a name that starts with \<^verbatim>\<open>linux\<close>, and the name itself
  otherwise.
\<close>

theorem init_platform_check:
  "(platform' \<notin> set supported_platforms \<longrightarrow>
      init platform' repo branch' baseTag' localesFile locales' localesURL' = Inl AssertionError) \<and>
   ((\<exists>c u. localesURL' = Some (c # u)) \<or> branch' \<noteq> None \<longrightarrow>
      ((\<exists>self. init platform' repo branch' baseTag' localesFile locales' localesURL' = Inr self)
         \<longleftrightarrow> platform' \<in> set supported_platforms)) \<and>
   (\<forall>self. init platform' repo branch' baseTag' localesFile locales' localesURL' = Inr self \<longrightarrow>
      platform self =
        (if startswith platform' ''macosx'' then ''osx''
         else if startswith platform' ''linux'' then ''linux'' else platform'))"
  by (auto simp: init_def normalize_platform_prefix split: option.splits list.splits sum.splits)

text \<open>With \<^verbatim>\<open>macosx64\<close> the object is built and filters with \<^verbatim>\<open>osx\<close>; with \<^verbatim>\<open>solaris\<close>
  the constructor fails.\<close>

theorem init_platform_check_witness:
  "''macosx64'' \<in> set supported_platforms \<and>
   (\<exists>self. init ''macosx64'' ''https://hg.mozilla.org/'' (Some ''mozilla-central'') ''default''
       ''browser/locales/all-locales'' None None = Inr self \<and> platform self = ''osx'') \<and>
   ''solaris'' \<notin> set supported_platforms \<and>
   init ''solaris'' ''https://hg.mozilla.org/'' (Some ''mozilla-central'') ''default''
       ''browser/locales/all-locales'' None None = Inl AssertionError"
proof -
  have a: "''macosx64'' \<in> set supported_platforms"
    by (simp add: supported_platforms_def)
  have b: "startswith ''macosx64'' ''macosx''"
    by (simp add: startswith_def)
  note c = init_platform_check [of "''macosx64''" "''https://hg.mozilla.org/''"
      "Some ''mozilla-central''" "''default''" "''browser/locales/all-locales''" None None]
  from a c obtain self where s: "init ''macosx64'' ''https://hg.mozilla.org/''
      (Some ''mozilla-central'') ''default'' ''browser/locales/all-locales'' None None = Inr self"
    by blast
  with b c have p: "platform self = ''osx''"
    by simp
  have d: "''solaris'' \<notin> set supported_platforms"
    by (simp add: supported_platforms_def)
  note e = init_platform_check [of "''solaris''" "''https://hg.mozilla.org/''"
      "Some ''mozilla-central''" "''default''" "''browser/locales/all-locales''" None None]
  from a s p d e show ?thesis
    by blast
qed

text \<open>
  C10. Without a locales URL (\<^verbatim>\<open>None\<close> or the empty string) and without a branch, the
  constructor fails with \<^verbatim>\<open>AssertionError\<close>, whatever the platform and whatever locale
  mapping is supplied.
\<close>

theorem init_requires_branch:
  "localesURL' = None \<or> localesURL' = Some [] \<Longrightarrow>
   init platform' repo None baseTag' localesFile locales' localesURL' = Inl AssertionError"
  by (auto simp: init_def)

theorem init_requires_branch_witness:
  "init ''linux'' ''https://hg.mozilla.org/'' None ''default'' ''browser/locales/all-locales''
     (Some [(''fr'', [''osx''])]) None = Inl AssertionError"
  using init_requires_branch [of None "''linux''" "''https://hg.mozilla.org/''" "''default''"
      "''browser/locales/all-locales''" "Some [(''fr'', [''osx''])]"]
  by simp

section \<open>Resolving the locales\<close>

text \<open>
  C3, as the specification states it: a controller with an explicit locale mapping, the
  empty mapping included, gets that mapping back without a fetch. The test
  \<^verbatim>\<open>if self.locales\<close> is false for the empty mapping: the URL is requested and the
  result is a Deferred, here one that fails with the timeout of the network.
\<close>

theorem getLocales_empty_mapping_fetches:
  "getLocales net_down
     \<lparr>branch = Some ''mozilla-central'', baseTag = ''default'',
      localesURL = ''http://l10n.example.org/%(revision)s/all-locales'',
      locales = Some [], platform = ''linux''\<rparr> None host0 =
   (\<lparr>sourcestamps = [], buildsets = [],
     requested = [''http://l10n.example.org/default/all-locales'']\<rparr>,
    Inr (Deferred (Inl (FetchError Timeout))))"
  by (simp add: getLocales_def revision_or_def getPage_def host0_def net_down_def)

text \<open>
  C3, amended. A controller constructed with a non-empty explicit locale mapping gets that
  mapping back, unchanged and at once, and the host is as it was: no URL is requested.
\<close>

theorem getLocales_explicit:
  assumes "init platform' repo branch' baseTag' localesFile (Some d) localesURL' = Inr self"
    and "d \<noteq> []"
  shows "getLocales net self revision h = (h, Inr (Locales d))"
  using assms
  by (auto simp: init_def getLocales_def split: option.splits list.splits sum.splits if_splits)

theorem getLocales_explicit_witness:
  "getLocales net_down
     \<lparr>branch = Some ''mozilla-central'', baseTag = ''default'',
      localesURL = ''https://hg.mozilla.org/mozilla-central/raw-file/%(revision)s/browser/locales/all-locales'',
      locales = Some [(''fr'', [''osx''])], platform = ''linux''\<rparr> None host0 =
    (host0, Inr (Locales [(''fr'', [''osx''])]))"
proof -
  have h: "init ''linux'' ''https://hg.mozilla.org/'' (Some ''mozilla-central'') ''default''
       ''browser/locales/all-locales'' (Some [(''fr'', [''osx''])]) None =
     Inr \<lparr>branch = Some ''mozilla-central'', baseTag = ''default'',
      localesURL = ''https://hg.mozilla.org/mozilla-central/raw-file/%(revision)s/browser/locales/all-locales'',
      locales = Some [(''fr'', [''osx''])], platform = ''linux''\<rparr>"
    by (simp add: init_def supported_platforms_def normalize_platform_def startswith_def)
  have n: "[(''fr'', [''osx''])] \<noteq> []"
    by simp
  from getLocales_explicit [OF h n] show ?thesis .
qed

section \<open>The fan-out\<close>

text \<open>
  C4. When the controller takes the fetch path (no locale mapping, or the empty one),
  the URL is built and the transfer fails, \<^verbatim>\<open>createL10nBuilds\<close> ends with the failure of
  the fetch, and the host has only the request added: no source stamp and no build set.
\<close>

theorem fetch_failure_aborts:
  assumes "locales self = None \<or> locales self = Some []"
    and "format_revision Lit (revision_or revision (baseTag self)) (localesURL self) = Inr url"
    and "net url = Inl f"
  shows "createL10nBuilds net self properties revision reason set_props h =
           (h\<lparr>requested := requested h @ [url]\<rparr>, Inl (FetchError f)) \<and>
         buildsets (fst (createL10nBuilds net self properties revision reason set_props h)) =
           buildsets h"
  using assms
  by (auto simp: createL10nBuilds_def getLocales_def getPage_def maybeDeferred_def)

theorem fetch_failure_aborts_witness:
  "createL10nBuilds net_down
     \<lparr>branch = Some ''mozilla-central'', baseTag = ''default'',
      localesURL = ''http://l10n.example.org/%(revision)s/all-locales'',
      locales = None, platform = ''linux''\<rparr>
     Map.empty (Some ''abc123'') None None host0 =
   (host0\<lparr>requested := requested host0 @ [''http://l10n.example.org/abc123/all-locales'']\<rparr>,
    Inl (FetchError Timeout))"
proof -
  let ?self = "\<lparr>branch = Some ''mozilla-central'', baseTag = ''default'',
      localesURL = ''http://l10n.example.org/%(revision)s/all-locales'',
      locales = None, platform = ''linux''\<rparr>"
  have a: "locales ?self = None \<or> locales ?self = Some []"
    by simp
  have b: "format_revision Lit (revision_or (Some ''abc123'') (baseTag ?self)) (localesURL ?self) =
      Inr ''http://l10n.example.org/abc123/all-locales''"
    by (simp add: revision_or_def)
  have c: "net_down ''http://l10n.example.org/abc123/all-locales'' = Inl Timeout"
    by (simp add: net_down_def)
  note t = fetch_failure_aborts [where net = net_down and self = "?self"
      and revision = "Some ''abc123''" and url = "''http://l10n.example.org/abc123/all-locales''"
      and f = Timeout and properties = Map.empty and reason = None and set_props = None
      and h = host0]
  from t a b c show ?thesis
    by blast
qed

text \<open>What the callback adds to the host: one build set for each locale the filter of
  the specification keeps, in the order of the dictionary, each with a new source stamp.\<close>

lemma cbLoadedLocales_buildsets:
  "buildsets (cbLoadedLocales self properties d reason set_props h) =
     buildsets h @
     map (\<lambda>(ssid, locale).
            \<lparr>bs_ssid = ssid, bs_reason = reason,
             bs_props = locale_props self properties set_props locale\<rparr>)
         (enumerate (length (sourcestamps h)) (spec_submitted (platform self) d))"
proof (induction d arbitrary: h)
  case Nil
  show ?case by (simp add: spec_submitted_def)
next
  case (Cons e d)
  obtain l ps where e: "e = (l, ps)" by (cases e)
  show ?case
  proof (cases "l \<noteq> ''en-US'' \<and> (ps = [] \<or> platform self \<in> set ps)")
    case True
    then show ?thesis
      using Cons.IH [of "create_buildset (length (sourcestamps h)) reason
                           (locale_props self properties set_props l)
                           (h\<lparr>sourcestamps := sourcestamps h @ [branch self]\<rparr>)"]
      by (auto simp: e spec_submitted_def get_sourcestampid_def create_buildset_def)
  next
    case False
    then show ?thesis
      using Cons.IH [of h] by (auto simp: e spec_submitted_def)
  qed
qed

lemma submitted_since_cb:
  "submitted_since h (cbLoadedLocales self properties d reason set_props h) =
     map (\<lambda>(ssid, locale).
            \<lparr>bs_ssid = ssid, bs_reason = reason,
             bs_props = locale_props self properties set_props locale\<rparr>)
         (enumerate (length (sourcestamps h)) (spec_submitted (platform self) d))"
  by (simp add: submitted_since_def cbLoadedLocales_buildsets)

lemma locale_props_lookup:
  "locale_props self properties set_props l ''locale'' = Some (l, ''Scheduler'')"
  "locale_props self properties set_props l ''en_revision'' = Some (baseTag self, ''L10nMixin'')"
  "locale_props self properties set_props l ''l10n_revision'' = Some (baseTag self, ''L10nMixin'')"
  by (simp_all add: locale_props_def setProperty_def updateFromProperties_def)

lemma distinct_spec_submitted:
  "distinct (map fst d) \<Longrightarrow> distinct (spec_submitted plat d)"
  unfolding spec_submitted_def by (rule distinct_map_filter)

text \<open>
  C5. The build sets the callback submits correspond, one to one and in order, to the
  locales that pass the filter; in each of them \<^verbatim>\<open>locale\<close> is that locale id and
  \<^verbatim>\<open>en_revision\<close> and \<^verbatim>\<open>l10n_revision\<close> are the base tag of the controller, for every
  persistent property set and every set of extra properties.
\<close>

theorem fanout_properties:
  "list_all2
     (\<lambda>bs l. bs_props bs ''locale'' = Some (l, ''Scheduler'') \<and>
             bs_props bs ''en_revision'' = Some (baseTag self, ''L10nMixin'') \<and>
             bs_props bs ''l10n_revision'' = Some (baseTag self, ''L10nMixin''))
     (submitted_since h (cbLoadedLocales self properties d reason set_props h))
     (spec_submitted (platform self) d)"
  unfolding submitted_since_cb list_all2_conv_all_nth
  by (simp add: locale_props_lookup nth_enumerate_eq)

text \<open>Extra properties that name \<^verbatim>\<open>locale\<close> and both revisions are overwritten.\<close>

theorem fanout_properties_witness:
  "list_all2
     (\<lambda>bs l. bs_props bs ''locale'' = Some (l, ''Scheduler'') \<and>
             bs_props bs ''en_revision'' = Some (''FIREFOX_3_6'', ''L10nMixin'') \<and>
             bs_props bs ''l10n_revision'' = Some (''FIREFOX_3_6'', ''L10nMixin''))
     (submitted_since host0
        (cbLoadedLocales
           \<lparr>branch = Some ''mozilla-central'', baseTag = ''FIREFOX_3_6'', localesURL = ''u'',
            locales = None, platform = ''osx''\<rparr>
           [''scheduler'' \<mapsto> (''l10n'', ''Scheduler'')]
           [(''en-US'', []), (''fr'', []), (''ja'', [''linux''])] None
           (Some [''locale'' \<mapsto> (''de'', ''Trigger''), ''en_revision'' \<mapsto> (''tip'', ''Trigger''),
                  ''l10n_revision'' \<mapsto> (''tip'', ''Trigger'')])
           host0))
     [''fr'']"
  using fanout_properties [of
      "\<lparr>branch = Some ''mozilla-central'', baseTag = ''FIREFOX_3_6'', localesURL = ''u'',
        locales = None, platform = ''osx''\<rparr>"
      host0 "[''scheduler'' \<mapsto> (''l10n'', ''Scheduler'')]"
      "[(''en-US'', []), (''fr'', []), (''ja'', [''linux''])]" None
      "Some [''locale'' \<mapsto> (''de'', ''Trigger''), ''en_revision'' \<mapsto> (''tip'', ''Trigger''),
             ''l10n_revision'' \<mapsto> (''tip'', ''Trigger'')]"]
  by (simp add: spec_submitted_def)

text \<open>The locales are resolved without touching the build sets or the source stamps, and
  a resolved mapping is handed to the callback.\<close>

lemma getLocales_host:
  "getLocales net self revision h = (h1, r) \<Longrightarrow>
     buildsets h1 = buildsets h \<and> sourcestamps h1 = sourcestamps h"
  by (auto simp: getLocales_def getPage_def split: option.splits list.splits sum.splits)

lemma createL10nBuilds_resolved:
  "getLocales net self revision h = (h1, r) \<Longrightarrow> maybeDeferred r = Inr d \<Longrightarrow>
     createL10nBuilds net self properties revision reason set_props h =
       (cbLoadedLocales self properties d reason set_props h1, Inr ())"
  by (simp add: createL10nBuilds_def)

lemma submitted_since_cb_from:
  "buildsets h1 = buildsets h \<Longrightarrow>
   submitted_since h (cbLoadedLocales self properties d reason set_props h1) =
     map (\<lambda>(ssid, locale).
            \<lparr>bs_ssid = ssid, bs_reason = reason,
             bs_props = locale_props self properties set_props locale\<rparr>)
         (enumerate (length (sourcestamps h1)) (spec_submitted (platform self) d))"
  by (simp add: submitted_since_def cbLoadedLocales_buildsets)

lemma cbLoadedLocales_submits_filtered:
  "buildsets h1 = buildsets h \<Longrightarrow>
   map (\<lambda>bs. bs_props bs ''locale'')
       (submitted_since h (cbLoadedLocales self properties d reason set_props h1)) =
     map (\<lambda>l. Some (l, ''Scheduler'')) (spec_submitted (platform self) d) \<and>
   length (submitted_since h (cbLoadedLocales self properties d reason set_props h1)) =
     length (spec_submitted (platform self) d)"
  by (auto simp: submitted_since_cb_from locale_props_lookup nth_enumerate_eq intro!: nth_equalityI)

text \<open>
  C6. Whenever \<^verbatim>\<open>getLocales\<close> resolves to a mapping (the configured one, or the parsed
  page), \<^verbatim>\<open>createL10nBuilds\<close> succeeds, and the locale ids of the build sets it has
  submitted are, in order, the locales of the mapping that are not \<^verbatim>\<open>en-US\<close> and whose
  platform list is empty or contains the platform of the controller: one build set for
  each of them and none for any other locale. The keys of a dictionary are pairwise
  different, so no locale is submitted twice.
\<close>

theorem fanout_submits_filtered:
  assumes "getLocales net self revision h = (h1, r)"
    and "maybeDeferred r = Inr d"
  shows "snd (createL10nBuilds net self properties revision reason set_props h) = Inr () \<and>
         map (\<lambda>bs. bs_props bs ''locale'')
             (submitted_since h
                (fst (createL10nBuilds net self properties revision reason set_props h))) =
           map (\<lambda>l. Some (l, ''Scheduler'')) (spec_submitted (platform self) d) \<and>
         length (submitted_since h
                   (fst (createL10nBuilds net self properties revision reason set_props h))) =
           length (spec_submitted (platform self) d) \<and>
         (distinct (map fst d) \<longrightarrow> distinct (spec_submitted (platform self) d))"
proof -
  from getLocales_host [OF assms(1)] have b: "buildsets h1 = buildsets h"
    by simp
  note c = createL10nBuilds_resolved [OF assms, of properties reason set_props]
  from cbLoadedLocales_submits_filtered [OF b, of self properties d reason set_props] c
  show ?thesis
    by (simp add: distinct_spec_submitted)
qed

text \<open>The example of the specification: of \<^verbatim>\<open>en-US\<close>, \<^verbatim>\<open>fr\<close> and \<^verbatim>\<open>ja\<close> (restricted to
  \<^verbatim>\<open>linux\<close>), a controller for \<^verbatim>\<open>osx\<close> submits one build, for \<^verbatim>\<open>fr\<close>, both when
  the mapping is configured and when it is the parsed page of the locales URL.\<close>

theorem fanout_submits_filtered_witness:
  "map (\<lambda>bs. bs_props bs ''locale'')
       (submitted_since host0
          (fst (createL10nBuilds net_down
             \<lparr>branch = Some ''mozilla-central'', baseTag = ''default'', localesURL = ''u'',
              locales = Some [(''en-US'', []), (''fr'', []), (''ja'', [''linux''])],
              platform = ''osx''\<rparr>
             Map.empty None None None host0))) =
     [Some (''fr'', ''Scheduler'')] \<and>
   distinct (spec_submitted ''osx'' [(''en-US'', []), (''fr'', []), (''ja'', [''linux''])]) \<and>
   snd (createL10nBuilds net_up
          \<lparr>branch = Some ''mozilla-central'', baseTag = ''default'',
           localesURL = ''http://l10n.example.org/%(revision)s/all-locales'',
           locales = None, platform = ''osx''\<rparr>
          Map.empty None None None host0) = Inr () \<and>
   map (\<lambda>bs. bs_props bs ''locale'')
       (submitted_since host0
          (fst (createL10nBuilds net_up
             \<lparr>branch = Some ''mozilla-central'', baseTag = ''default'',
              localesURL = ''http://l10n.example.org/%(revision)s/all-locales'',
              locales = None, platform = ''osx''\<rparr>
             Map.empty None None None host0))) =
     [Some (''fr'', ''Scheduler'')]"
proof -
  let ?d = "[(''en-US'', []), (''fr'', []), (''ja'', [''linux''])]"
  let ?s1 = "\<lparr>branch = Some ''mozilla-central'', baseTag = ''default'', localesURL = ''u'',
              locales = Some ?d, platform = ''osx''\<rparr>"
  let ?s2 = "\<lparr>branch = Some ''mozilla-central'', baseTag = ''default'',
              localesURL = ''http://l10n.example.org/%(revision)s/all-locales'',
              locales = None, platform = ''osx''\<rparr>"
  let ?h2 = "host0\<lparr>requested := requested host0 @ [''http://l10n.example.org/default/all-locales'']\<rparr>"
  have a: "distinct (map fst ?d)"
    by simp
  have b: "spec_submitted ''osx'' ?d = [''fr'']"
    by (simp add: spec_submitted_def)
  have g1: "getLocales net_down ?s1 None host0 = (host0, Inr (Locales ?d))"
    by (simp add: getLocales_def)
  have m1: "maybeDeferred (Inr (Locales ?d)) = Inr ?d"
    by (simp add: maybeDeferred_def)
  have p: "ParseLocalesFile ''en-US\<newline>fr\<newline>ja linux\<newline>'' = Inr ?d"
    by (simp add: ParseLocalesFile_def strip_def isspace_def split_ws_def)
  have g2: "getLocales net_up ?s2 None host0 = (?h2, Inr (Deferred (Inr ?d)))"
    by (simp add: getLocales_def revision_or_def getPage_def net_up_def p)
  have m2: "maybeDeferred (Inr (Deferred (Inr ?d))) = Inr ?d"
    by (simp add: maybeDeferred_def)
  note t1 = fanout_submits_filtered [OF g1 m1, of Map.empty None None]
  note t2 = fanout_submits_filtered [OF g2 m2, of Map.empty None None]
  from a b t1 t2 show ?thesis
    by simp
qed

end
